theory Spec2Isabelle
  imports Main "HOL-Library.AList"
begin

section \<open>The DuckDB wrapper: a connection and query facade\<close>

text \<open>
  A shallow embedding of \<^verbatim>\<open>src/duckDB/duckdb_wrapper.py\<close> (class \<^verbatim>\<open>DuckDBWrapper\<close>).

  The embedded engine (the \<^verbatim>\<open>duckdb\<close> module), the identity service (\<^verbatim>\<open>boto3\<close>) and the
  data-frame constructor (\<^verbatim>\<open>pandas\<close>) are external collaborators. The engine is a
  parameter of every operation: a record of response functions, each of which sees the
  history of calls made on the engine so far, so that nothing is assumed about what it
  answers. Every call the wrapper makes on the connection object is appended to a trace;
  "no engine interaction" means that the trace is unchanged.

  An exception is a value: every operation returns \<open>py_error + 'a\<close> together with the new
  state. The \<^verbatim>\<open>try ... except ...: log; raise\<close> blocks of the source re-raise the exception
  they caught, so they are the identity on results; logging is not part of the model.
\<close>

subsection \<open>Values, errors, cursors\<close>

datatype pyval = PNone | PBool bool | PInt int | PStr string

text \<open>A row fetched from a cursor is a tuple; a result row is a \<^verbatim>\<open>dict\<close>, which keeps its
  keys in insertion order.\<close>

type_synonym row = "pyval list"
type_synonym row_dict = "(string \<times> pyval) list"

text \<open>\<^verbatim>\<open>params: Union[List, Dict] = None\<close>\<close>

datatype params = NoParams | Positional "pyval list" | Named "(string \<times> pyval) list"

text \<open>\<^verbatim>\<open>pd.DataFrame(data)\<close>: the data frame built from a list of row dictionaries.\<close>

datatype dataframe = DataFrame "row_dict list"

datatype py_error =
    ConnectionError string
  | ValueError string
  | AttributeError
  | TypeError
  | DuckDBError string
  | BotoError string

type_synonym handle = nat

text \<open>
  What \<^verbatim>\<open>execute\<close> returns: \<^verbatim>\<open>description\<close> (a sequence of tuples whose first component is
  the column name, or \<^verbatim>\<open>None\<close>) and the rows still to be fetched. Fetching a row may itself
  fail inside the engine, so an entry is a row or an error.
\<close>

datatype fetch_item = Row row | Fail py_error

record cursor =
  description :: "(string \<times> string) list option"
  pending :: "fetch_item list"

text \<open>\<^verbatim>\<open>result.fetchall()\<close>: all remaining rows, or the first error met on the way.\<close>

fun fetchall :: "fetch_item list \<Rightarrow> py_error + row list" where
  "fetchall [] = Inr []"
| "fetchall (Fail e # xs) = Inl e"
| "fetchall (Row r # xs) = (case fetchall xs of Inl e \<Rightarrow> Inl e | Inr rs \<Rightarrow> Inr (r # rs))"

text \<open>\<^verbatim>\<open>result.fetchone()\<close>: the next row, \<^verbatim>\<open>None\<close> when the cursor is exhausted, or an error.\<close>

fun fetchone :: "cursor \<Rightarrow> (py_error + row option) \<times> cursor" where
  "fetchone c =
     (case pending c of
        [] \<Rightarrow> (Inr None, c)
      | Fail e # xs \<Rightarrow> (Inl e, c\<lparr>pending := xs\<rparr>)
      | Row r # xs \<Rightarrow> (Inr (Some r), c\<lparr>pending := xs\<rparr>))"

subsection \<open>The engine and the identity service\<close>

text \<open>
  The calls the wrapper makes on the \<^verbatim>\<open>duckdb\<close> module and on the connection object.
  \<open>Execute\<close> carries, besides the statement and its parameters, the local data frame
  \<^verbatim>\<open>df\<close> of the calling method when there is one: the statements \<^verbatim>\<open>... FROM df\<close> read it.
\<close>

datatype engine_call =
    Connect "string option"
  | Close handle
  | Execute string params "dataframe option"
  | InstallExtension string
  | LoadExtension string

record engine =
  connect_result :: "engine_call list \<Rightarrow> string option \<Rightarrow> py_error + handle"
  execute_result :: "engine_call list \<Rightarrow> string \<Rightarrow> params \<Rightarrow> dataframe option \<Rightarrow> py_error + cursor"
  install_result :: "engine_call list \<Rightarrow> string \<Rightarrow> py_error option"
  load_result :: "engine_call list \<Rightarrow> string \<Rightarrow> py_error option"

text \<open>
  \<^verbatim>\<open>boto3\<close>: \<^verbatim>\<open>session.client("sts")\<close>, \<^verbatim>\<open>sts.get_caller_identity()\<close>,
  \<^verbatim>\<open>session.get_credentials()\<close> (which raises, or returns \<^verbatim>\<open>None\<close> when no credentials are
  found, or returns credentials) and \<^verbatim>\<open>session.region_name\<close>.
\<close>

record credentials =
  access_key :: string
  secret_key :: string
  token :: "string option"

record identity_service =
  sts_client :: "py_error option"
  get_caller_identity :: "py_error option"
  get_credentials :: "py_error + credentials option"
  region_name :: "string option"

subsection \<open>The wrapper's state\<close>

text \<open>\<^verbatim>\<open>self.db_file\<close>, \<^verbatim>\<open>self._conn\<close>, and the trace of engine calls made so far.\<close>

record world =
  db_file :: "string option"
  conn :: "handle option"
  trace :: "engine_call list"

text \<open>\<^verbatim>\<open>__init__\<close>\<close>

definition init :: "string option \<Rightarrow> engine_call list \<Rightarrow> world" where
  "init file tr = \<lparr>db_file = file, conn = None, trace = tr\<rparr>"

subsection \<open>String helpers\<close>

definition sq :: string where
  "sq = [CHR 0x27]"

text \<open>\<^verbatim>\<open>sep.join(xs)\<close>\<close>

fun py_join :: "string \<Rightarrow> string list \<Rightarrow> string" where
  "py_join sep [] = []"
| "py_join sep [x] = x"
| "py_join sep (x # y # ys) = x @ sep @ py_join sep (y # ys)"

text \<open>\<^verbatim>\<open>str(v)\<close> inside an f-string, for a value that may be \<^verbatim>\<open>None\<close>.\<close>

definition py_str :: "string option \<Rightarrow> string" where
  "py_str v = (case v of None \<Rightarrow> ''None'' | Some s \<Rightarrow> s)"

text \<open>\<^verbatim>\<open>os.path.join(a, b)\<close> (posixpath).\<close>

definition os_path_join :: "string \<Rightarrow> string \<Rightarrow> string" where
  "os_path_join a b =
     (if b \<noteq> [] \<and> hd b = CHR ''/'' then b
      else if a = [] \<or> last a = CHR ''/'' then a @ b
      else a @ ''/'' @ b)"

text \<open>\<^verbatim>\<open>dict(pairs)\<close>: a later pair with a key already present replaces the value and
  keeps the key's position; a new key goes to the end.\<close>

definition py_dict :: "(string \<times> pyval) list \<Rightarrow> row_dict" where
  "py_dict kvs = foldl (\<lambda>d (k, v). AList.update k v d) [] kvs"

subsection \<open>Lifecycle\<close>

text \<open>\<^verbatim>\<open>self._conn.execute(...)\<close>: an attribute access on \<^verbatim>\<open>None\<close> raises
  \<^verbatim>\<open>AttributeError\<close> and reaches no engine; otherwise the call is made and recorded,
  whatever its outcome.\<close>

definition conn_execute ::
  "engine \<Rightarrow> world \<Rightarrow> string \<Rightarrow> params \<Rightarrow> dataframe option \<Rightarrow> (py_error + cursor) \<times> world" where
  "conn_execute eng w query ps df =
     (case conn w of
        None \<Rightarrow> (Inl AttributeError, w)
      | Some h \<Rightarrow> (execute_result eng (trace w) query ps df,
                   w\<lparr>trace := trace w @ [Execute query ps df]\<rparr>))"

definition create_duckdb_connection :: "engine \<Rightarrow> world \<Rightarrow> (py_error + unit) \<times> world" where
  "create_duckdb_connection eng w =
     (let path = (case db_file w of None \<Rightarrow> None | Some f \<Rightarrow> if f \<noteq> [] then Some f else None)
      in case connect_result eng (trace w) path of
           Inl e \<Rightarrow> (Inl e, w\<lparr>trace := trace w @ [Connect path]\<rparr>)
         | Inr h \<Rightarrow> (Inr (), w\<lparr>conn := Some h, trace := trace w @ [Connect path]\<rparr>))"

definition close :: "world \<Rightarrow> world" where
  "close w =
     (case conn w of
        None \<Rightarrow> w
      | Some h \<Rightarrow> w\<lparr>conn := None, trace := trace w @ [Close h]\<rparr>)"

definition dunder_enter :: "engine \<Rightarrow> world \<Rightarrow> (py_error + unit) \<times> world" where
  "dunder_enter eng w = create_duckdb_connection eng w"

text \<open>\<^verbatim>\<open>__exit__\<close> ignores its arguments and returns \<^verbatim>\<open>None\<close>, so an exception raised in
  the body is not suppressed.\<close>

definition dunder_exit :: "world \<Rightarrow> world" where
  "dunder_exit w = close w"

text \<open>\<^verbatim>\<open>with wrapper: body\<close>. When \<^verbatim>\<open>__enter__\<close> raises, the body does not run and
  \<^verbatim>\<open>__exit__\<close> is not called.\<close>

definition with_scope ::
  "engine \<Rightarrow> world \<Rightarrow> (world \<Rightarrow> (py_error + 'a) \<times> world) \<Rightarrow> (py_error + 'a) \<times> world" where
  "with_scope eng w body =
     (case dunder_enter eng w of
        (Inl e, w1) \<Rightarrow> (Inl e, w1)
      | (Inr u, w1) \<Rightarrow> (case body w1 of (r, w2) \<Rightarrow> (r, dunder_exit w2)))"

subsection \<open>Remote storage\<close>

fun set_s3_credentials ::
  "engine \<Rightarrow> world \<Rightarrow> (string \<times> string) list \<Rightarrow> (py_error + unit) \<times> world" where
  "set_s3_credentials eng w [] = (Inr (), w)"
| "set_s3_credentials eng w ((key, val) # rest) =
     (case conn_execute eng w (''SET '' @ key @ ''='' @ sq @ val @ sq) NoParams None of
        (Inl e, w1) \<Rightarrow> (Inl e, w1)
      | (Inr c, w1) \<Rightarrow> set_s3_credentials eng w1 rest)"

fun install_and_load_extensions ::
  "engine \<Rightarrow> world \<Rightarrow> string list \<Rightarrow> (py_error + unit) \<times> world" where
  "install_and_load_extensions eng w [] = (Inr (), w)"
| "install_and_load_extensions eng w (ext # rest) =
     (let w1 = w\<lparr>trace := trace w @ [InstallExtension ext]\<rparr>
      in case install_result eng (trace w) ext of
           Some e \<Rightarrow> (Inl e, w1)
         | None \<Rightarrow>
             (let w2 = w1\<lparr>trace := trace w1 @ [LoadExtension ext]\<rparr>
              in case load_result eng (trace w1) ext of
                   Some e \<Rightarrow> (Inl e, w2)
                 | None \<Rightarrow> install_and_load_extensions eng w2 rest))"

definition connect_to_s3 :: "engine \<Rightarrow> identity_service \<Rightarrow> world \<Rightarrow> (py_error + unit) \<times> world" where
  "connect_to_s3 eng ids w =
     (if conn w = None then
        (Inl (ConnectionError ''DuckDB connection not established. Call connect() first.''), w)
      else case sts_client ids of
        Some e \<Rightarrow> (Inl e, w)
      | None \<Rightarrow>
      (case get_caller_identity ids of
        Some e \<Rightarrow> (Inl e, w)
      | None \<Rightarrow>
      (case get_credentials ids of
        Inl e \<Rightarrow> (Inl e, w)
      | Inr None \<Rightarrow> (Inl AttributeError, w)
      | Inr (Some aws_creds) \<Rightarrow>
          (let aws_config =
                 [(''s3_access_key_id'', access_key aws_creds),
                  (''s3_secret_access_key'', secret_key aws_creds),
                  (''s3_session_token'', py_str (token aws_creds)),
                  (''s3_region'', py_str (region_name ids))]
           in case set_s3_credentials eng w aws_config of
                (Inl e, w1) \<Rightarrow> (Inl e, w1)
              | (Inr u, w1) \<Rightarrow> install_and_load_extensions eng w1 [''httpfs'', ''aws'']))))"

subsection \<open>Query execution\<close>

text \<open>\<^verbatim>\<open>[desc[0] for desc in result.description]\<close>: iterating \<^verbatim>\<open>None\<close> raises
  \<^verbatim>\<open>TypeError\<close>.\<close>

definition columns_of :: "cursor \<Rightarrow> py_error + string list" where
  "columns_of c = (case description c of None \<Rightarrow> Inl TypeError | Some ds \<Rightarrow> Inr (map fst ds))"

definition execute_query ::
  "engine \<Rightarrow> world \<Rightarrow> string \<Rightarrow> params \<Rightarrow> (py_error + row_dict list) \<times> world" where
  "execute_query eng w query ps =
     (case conn_execute eng w query ps None of
        (Inl e, w1) \<Rightarrow> (Inl e, w1)
      | (Inr result, w1) \<Rightarrow>
          (case columns_of result of
             Inl e \<Rightarrow> (Inl e, w1)
           | Inr columns \<Rightarrow>
               (case fetchall (pending result) of
                  Inl e \<Rightarrow> (Inl e, w1)
                | Inr rows \<Rightarrow> (Inr (map (\<lambda>row. py_dict (zip columns row)) rows), w1))))"

text \<open>
  \<^verbatim>\<open>execute_query_fetch_one\<close> is a generator function. Calling it runs none of its body:
  it returns a generator object that holds the arguments. The body runs when the
  generator is advanced, against the wrapper's state at that moment. A generator is
  created, or suspended at the \<^verbatim>\<open>yield\<close> (holding \<^verbatim>\<open>result\<close>, \<^verbatim>\<open>columns\<close> and
  \<^verbatim>\<open>row_count\<close>), or finished.
\<close>

datatype generator =
    Created string params
  | Suspended cursor "string list" nat
  | Finished

definition execute_query_fetch_one ::
  "engine \<Rightarrow> world \<Rightarrow> string \<Rightarrow> params \<Rightarrow> (py_error + generator) \<times> world" where
  "execute_query_fetch_one eng w query ps = (Inr (Created query ps), w)"

text \<open>One turn of the \<^verbatim>\<open>while True\<close> loop, up to the next \<^verbatim>\<open>yield\<close>, \<^verbatim>\<open>break\<close> or
  exception.\<close>

definition fetch_loop ::
  "cursor \<Rightarrow> string list \<Rightarrow> nat \<Rightarrow> (py_error + row_dict option) \<times> generator" where
  "fetch_loop result columns row_count =
     (case fetchone result of
        (Inl e, result') \<Rightarrow> (Inl e, Finished)
      | (Inr None, result') \<Rightarrow> (Inr None, Finished)
      | (Inr (Some row), result') \<Rightarrow>
          (Inr (Some (py_dict (zip columns row))), Suspended result' columns (row_count + 1)))"

text \<open>\<^verbatim>\<open>next(gen)\<close>: \<open>Inr (Some d)\<close> is a yielded row, \<open>Inr None\<close> is
  \<^verbatim>\<open>StopIteration\<close>, \<open>Inl e\<close> an exception leaving the generator.\<close>

fun gen_next ::
  "engine \<Rightarrow> world \<Rightarrow> generator \<Rightarrow> (py_error + row_dict option) \<times> generator \<times> world" where
  "gen_next eng w (Created query ps) =
     (case conn_execute eng w query ps None of
        (Inl e, w1) \<Rightarrow> (Inl e, Finished, w1)
      | (Inr result, w1) \<Rightarrow>
          (case columns_of result of
             Inl e \<Rightarrow> (Inl e, Finished, w1)
           | Inr columns \<Rightarrow>
               (case fetch_loop result columns 0 of (r, g) \<Rightarrow> (r, g, w1))))"
| "gen_next eng w (Suspended result columns row_count) =
     (case fetch_loop result columns row_count of (r, g) \<Rightarrow> (r, g, w))"
| "gen_next eng w Finished = (Inr None, Finished, w)"

text \<open>Advancing a generator until it stops (\<^verbatim>\<open>for row in gen\<close>): the rows yielded, in
  order, the exception that ended the iteration if one did, and the final state.\<close>

fun gen_rank :: "generator \<Rightarrow> nat" where
  "gen_rank (Created query ps) = 1"
| "gen_rank (Suspended result columns row_count) = 0"
| "gen_rank Finished = 0"

fun gen_remaining :: "generator \<Rightarrow> nat" where
  "gen_remaining (Created query ps) = 0"
| "gen_remaining (Suspended result columns row_count) = Suc (length (pending result))"
| "gen_remaining Finished = 0"

function drain :: "engine \<Rightarrow> world \<Rightarrow> generator \<Rightarrow> row_dict list \<times> py_error option \<times> world" where
  "drain eng w g =
     (case gen_next eng w g of
        (Inl e, g', w') \<Rightarrow> ([], Some e, w')
      | (Inr None, g', w') \<Rightarrow> ([], None, w')
      | (Inr (Some d), g', w') \<Rightarrow>
          (case drain eng w' g' of (ds, r, w'') \<Rightarrow> (d # ds, r, w'')))"
  by pat_completeness auto
termination
proof (relation "inv_image (less_than <*lex*> less_than)
                   (\<lambda>(eng, w, g). (gen_rank g, gen_remaining g))")
  show "wf (inv_image (less_than <*lex*> less_than)
              (\<lambda>(eng :: engine, w :: world, g). (gen_rank g, gen_remaining g)))"
    by (intro wf_inv_image wf_lex_prod wf_less_than)
next
  fix eng :: engine and w w' :: world and g g' :: generator
    and x :: "py_error + row_dict option" and y :: "generator \<times> world"
    and b :: "row_dict option" and d :: row_dict
  assume "(x, y) = gen_next eng w g" "(g', w') = y" "x = Inr b" "b = Some d"
  then have step: "gen_next eng w g = (Inr (Some d), g', w')"
    by simp
  have "(gen_rank g', gen_remaining g') = (gen_rank g, gen_remaining g - 1) \<and> gen_remaining g \<noteq> 0
          \<or> gen_rank g' < gen_rank g"
  proof (cases g)
    case (Created query ps)
    with step have "\<exists>result columns. fetch_loop result columns 0 = (Inr (Some d), g')"
      by (auto split: prod.splits sum.splits)
    then obtain result columns where "fetch_loop result columns 0 = (Inr (Some d), g')"
      by blast
    then have "gen_rank g' = 0"
      by (cases "pending result") (auto simp: fetch_loop_def split: fetch_item.splits)
    with Created show ?thesis by simp
  next
    case (Suspended result columns row_count)
    with step have "fetch_loop result columns row_count = (Inr (Some d), g')"
      by (auto split: prod.splits)
    with Suspended show ?thesis
      by (cases "pending result") (auto simp: fetch_loop_def split: fetch_item.splits)
  next
    case Finished
    with step show ?thesis by simp
  qed
  then show "((eng, w', g'), (eng, w, g))
          \<in> inv_image (less_than <*lex*> less_than) (\<lambda>(eng, w, g). (gen_rank g, gen_remaining g))"
    by auto
qed

text \<open>A caller that iterates over the whole result of \<^verbatim>\<open>execute_query_fetch_one\<close>
  (\<^verbatim>\<open>for row in wrapper.execute_query_fetch_one(query, params)\<close>).\<close>

definition consume_fetch_one ::
  "engine \<Rightarrow> world \<Rightarrow> string \<Rightarrow> params \<Rightarrow> row_dict list \<times> py_error option \<times> world" where
  "consume_fetch_one eng w query ps =
     (case execute_query_fetch_one eng w query ps of
        (Inl e, w1) \<Rightarrow> ([], Some e, w1)
      | (Inr g, w1) \<Rightarrow> drain eng w1 g)"

subsection \<open>Interchange operations\<close>

definition save_parquet ::
  "engine \<Rightarrow> world \<Rightarrow> row_dict list \<Rightarrow> string \<Rightarrow> (py_error + unit) \<times> world" where
  "save_parquet eng w data complete_file_name =
     (let df = DataFrame data
      in case conn_execute eng w ''CREATE TEMPORARY TABLE temp_table AS SELECT * FROM df''
                NoParams (Some df) of
           (Inl e, w1) \<Rightarrow> (Inl e, w1)
         | (Inr c1, w1) \<Rightarrow>
      (case conn_execute eng w1 (''COPY temp_table TO '' @ sq @ complete_file_name @ sq)
                NoParams (Some df) of
           (Inl e, w2) \<Rightarrow> (Inl e, w2)
         | (Inr c2, w2) \<Rightarrow>
      (case conn_execute eng w2 ''DROP TABLE temp_table'' NoParams (Some df) of
           (Inl e, w3) \<Rightarrow> (Inl e, w3)
         | (Inr c3, w3) \<Rightarrow> (Inr (), w3))))"

text \<open>The statement \<^verbatim>\<open>read_file\<close> builds. \<^verbatim>\<open>if select_columns:\<close> and
  \<^verbatim>\<open>if filter_conditions:\<close> test truthiness: \<^verbatim>\<open>None\<close> and the empty list both take the
  \<^verbatim>\<open>else\<close> side.\<close>

definition read_file_query ::
  "string \<Rightarrow> string \<Rightarrow> string list option \<Rightarrow> string list option \<Rightarrow> string" where
  "read_file_query file_path file_type select_columns filter_conditions =
     (let query =
            (case select_columns of
               Some (c # cs) \<Rightarrow>
                 ''SELECT '' @ py_join '', '' (c # cs) @ '' FROM read_'' @ file_type
                   @ ''('' @ sq @ file_path @ sq @ '')''
             | _ \<Rightarrow> ''SELECT * FROM read_'' @ file_type @ ''('' @ sq @ file_path @ sq @ '')'')
      in case filter_conditions of
           Some (f # fs) \<Rightarrow>
             query @ '' WHERE ''
               @ py_join '' AND '' (map (\<lambda>condition. ''('' @ condition @ '')'') (f # fs))
         | _ \<Rightarrow> query)"

definition read_file ::
  "engine \<Rightarrow> world \<Rightarrow> string \<Rightarrow> string \<Rightarrow> string list option \<Rightarrow> string list option
     \<Rightarrow> (py_error + row_dict list) \<times> world" where
  "read_file eng w file_path file_type select_columns filter_conditions =
     (if file_type \<notin> set [''csv'', ''parquet''] then
        (Inl (ValueError (''file_type must be either 'csv' or 'parquet'' @ sq)), w)
      else execute_query eng w
             (read_file_query file_path file_type select_columns filter_conditions) NoParams)"

definition create_table ::
  "engine \<Rightarrow> world \<Rightarrow> string \<Rightarrow> row_dict list \<Rightarrow> (py_error + unit) \<times> world" where
  "create_table eng w table_name data =
     (if data = [] then (Inl (ValueError ''No data provided to create the table''), w)
      else
        (let df = DataFrame data;
             query = ''CREATE TABLE '' @ table_name @ '' AS SELECT * FROM df''
         in case conn_execute eng w query NoParams (Some df) of
              (Inl e, w1) \<Rightarrow> (Inl e, w1)
            | (Inr c, w1) \<Rightarrow> (Inr (), w1)))"

definition save_table_as_parquet ::
  "engine \<Rightarrow> world \<Rightarrow> string \<Rightarrow> string \<Rightarrow> string \<Rightarrow> (py_error + unit) \<times> world" where
  "save_table_as_parquet eng w table_name file_path file_name =
     (let full_path = os_path_join file_path (file_name @ ''.parquet'');
          query = ''COPY (SELECT * FROM '' @ table_name @ '') TO '' @ sq @ full_path @ sq
                    @ '' (FORMAT PARQUET)''
      in case conn_execute eng w query NoParams None of
           (Inl e, w1) \<Rightarrow> (Inl e, w1)
         | (Inr c, w1) \<Rightarrow> (Inr (), w1))"

subsection \<open>The statement of \<^verbatim>\<open>read_file\<close> as the specification words it\<close>

text \<open>
  The specification's wording of the statement, to be compared with \<open>read_file_query\<close>:
  \<^verbatim>\<open>SELECT <selectColumns comma-joined> FROM read_<fileType>('<path>')\<close> when
  \<^verbatim>\<open>selectColumns\<close> is given, otherwise \<^verbatim>\<open>SELECT *\<close>; followed, when
  \<^verbatim>\<open>filterConditions\<close> is given, by \<^verbatim>\<open>WHERE\<close> and the conditions, each in parentheses,
  joined by \<^verbatim>\<open>AND\<close>. "Given" is \<open>Some\<close>, "not given" is \<open>None\<close>.
\<close>

definition spec_read_statement ::
  "string \<Rightarrow> string \<Rightarrow> string list option \<Rightarrow> string list option \<Rightarrow> string" where
  "spec_read_statement path fileType selectColumns filterConditions =
     ''SELECT ''
     @ (case selectColumns of Some cols \<Rightarrow> py_join '', '' cols | None \<Rightarrow> ''*'')
     @ '' FROM read_'' @ fileType @ ''('' @ sq @ path @ sq @ '')''
     @ (case filterConditions of
          Some conds \<Rightarrow> '' WHERE '' @ py_join '' AND '' (map (\<lambda>c. ''('' @ c @ '')'') conds)
        | None \<Rightarrow> [])"

text \<open>The reading of "given" that the code implements: an argument counts as given when it
  is a non-empty list; an empty list counts as absent.\<close>

definition given_nonempty :: "'a list option \<Rightarrow> 'a list option" where
  "given_nonempty arg = (case arg of Some (x # xs) \<Rightarrow> Some (x # xs) | _ \<Rightarrow> None)"

subsection \<open>Error classes\<close>

text \<open>The result is an exception of class \<^verbatim>\<open>ConnectionError\<close>.\<close>

definition raises_connection_error :: "py_error + 'a \<Rightarrow> bool" where
  "raises_connection_error r = (case r of Inl (ConnectionError msg) \<Rightarrow> True | _ \<Rightarrow> False)"

subsection \<open>Concrete engines and states\<close>

text \<open>An engine that accepts every call and answers every statement with the same two rows,
  one that rejects every statement, and one that fails on \<^verbatim>\<open>COPY\<close> only.\<close>

definition demo_cursor :: cursor where
  "demo_cursor =
     \<lparr>description = Some [(''a'', ''INTEGER''), (''b'', ''VARCHAR'')],
      pending = [Row [PInt 1, PStr ''x''], Row [PInt 2, PStr ''y'']]\<rparr>"

definition demo_engine :: engine where
  "demo_engine =
     \<lparr>connect_result = (\<lambda>tr path. Inr (length tr)),
      execute_result = (\<lambda>tr query ps df. Inr demo_cursor),
      install_result = (\<lambda>tr ext. None),
      load_result = (\<lambda>tr ext. None)\<rparr>"

definition rejecting_engine :: engine where
  "rejecting_engine =
     demo_engine\<lparr>execute_result := (\<lambda>tr query ps df. Inl (DuckDBError ''Parser Error''))\<rparr>"

definition copy_failing_engine :: engine where
  "copy_failing_engine =
     demo_engine\<lparr>execute_result :=
       (\<lambda>tr query ps df. if take 4 query = ''COPY'' then Inl (DuckDBError ''IO Error'')
                          else Inr demo_cursor)\<rparr>"

text \<open>A wrapper that was never connected, and the same wrapper after
  \<^verbatim>\<open>create_duckdb_connection\<close>.\<close>

definition closed_world :: world where
  "closed_world = init None []"

definition open_world :: world where
  "open_world = snd (create_duckdb_connection demo_engine closed_world)"

text \<open>An identity service without credentials, and one with credentials.\<close>

definition no_identity :: identity_service where
  "no_identity =
     \<lparr>sts_client = None,
      get_caller_identity = Some (BotoError ''NoCredentialsError''),
      get_credentials = Inr None,
      region_name = None\<rparr>"

definition demo_identity :: identity_service where
  "demo_identity =
     \<lparr>sts_client = None,
      get_caller_identity = None,
      get_credentials = Inr (Some \<lparr>access_key = ''AK'', secret_key = ''SK'', token = Some ''TK''\<rparr>),
      region_name = Some ''eu-west-1''\<rparr>"

text \<open>A scope body whose statement the engine rejects.\<close>

definition failing_body :: "world \<Rightarrow> (py_error + row_dict list) \<times> world" where
  "failing_body w = execute_query rejecting_engine w ''SELEC 1'' NoParams"

section \<open>Properties\<close>

subsection \<open>Basic facts\<close>

lemma open_world_eq: "open_world = \<lparr>db_file = None, conn = Some 0, trace = [Connect None]\<rparr>"
  by (simp add: open_world_def closed_world_def init_def create_duckdb_connection_def
        demo_engine_def)

lemma conn_execute_closed:
  "conn w = None \<Longrightarrow> conn_execute eng w query ps df = (Inl AttributeError, w)"
  by (simp add: conn_execute_def)

lemma conn_execute_open:
  "conn w = Some h \<Longrightarrow>
     conn_execute eng w query ps df =
       (execute_result eng (trace w) query ps df, w\<lparr>trace := trace w @ [Execute query ps df]\<rparr>)"
  by (simp add: conn_execute_def)

lemma execute_query_closed:
  "conn w = None \<Longrightarrow> execute_query eng w query ps = (Inl AttributeError, w)"
  by (simp add: execute_query_def conn_execute_def)

declare drain.simps [simp del]

lemma py_dict_fold_keys:
  "fst ` set (foldl (\<lambda>d (k, v). AList.update k v d) d0 kvs) = fst ` set d0 \<union> fst ` set kvs"
proof (induction kvs arbitrary: d0)
  case Nil
  then show ?case by simp
next
  case (Cons kv kvs)
  obtain k v where kv: "kv = (k, v)" by (cases kv)
  have "fst ` set (foldl (\<lambda>d (k, v). AList.update k v d) d0 (kv # kvs))
          = fst ` set (AList.update k v d0) \<union> fst ` set kvs"
    using Cons.IH [of "AList.update k v d0"] kv by simp
  also have "\<dots> = fst ` set d0 \<union> fst ` set (kv # kvs)"
    unfolding AList.dom_update using kv by auto
  finally show ?case .
qed

lemma py_dict_fold_distinct:
  "distinct (map fst d0) \<Longrightarrow> distinct (map fst (foldl (\<lambda>d (k, v). AList.update k v d) d0 kvs))"
  by (induction kvs arbitrary: d0) (auto simp: AList.distinct_update)

lemma py_dict_fold_order:
  "distinct (map fst d0 @ map fst kvs) \<Longrightarrow>
     map fst (foldl (\<lambda>d (k, v). AList.update k v d) d0 kvs) = map fst d0 @ map fst kvs"
proof (induction kvs arbitrary: d0)
  case Nil
  then show ?case by simp
next
  case (Cons kv kvs)
  obtain k v where kv: "kv = (k, v)" by (cases kv)
  from Cons.prems kv have fresh: "k \<notin> set (map fst d0)" by auto
  then have keys: "map fst (AList.update k v d0) = map fst d0 @ [k]"
    by (simp add: AList.update_keys)
  from Cons.prems kv have "distinct (map fst (AList.update k v d0) @ map fst kvs)"
    by (auto simp: keys)
  from Cons.IH [OF this] kv keys show ?case by simp
qed

lemma py_dict_keys: "set (map fst (py_dict kvs)) = set (map fst kvs)"
  using py_dict_fold_keys [of "[]" kvs] by (simp add: py_dict_def)

lemma py_dict_distinct: "distinct (map fst (py_dict kvs))"
  using py_dict_fold_distinct [of "[]" kvs] by (simp add: py_dict_def)

lemma py_dict_order: "distinct (map fst kvs) \<Longrightarrow> map fst (py_dict kvs) = map fst kvs"
  using py_dict_fold_order [of "[]" kvs] by (simp add: py_dict_def)

lemma fetchall_rows: "fetchall xs = Inr rows \<Longrightarrow> r \<in> set rows \<Longrightarrow> Row r \<in> set xs"
  by (induction xs arbitrary: rows rule: fetchall.induct) (auto split: sum.splits)

lemma execute_query_Inr:
  "execute_query eng w query ps = (Inr data, w') \<Longrightarrow>
     \<exists>h result columns rows.
        conn w = Some h \<and> execute_result eng (trace w) query ps None = Inr result
        \<and> columns_of result = Inr columns \<and> fetchall (pending result) = Inr rows
        \<and> data = map (\<lambda>row. py_dict (zip columns row)) rows
        \<and> w' = w\<lparr>trace := trace w @ [Execute query ps None]\<rparr>"
  by (cases "conn w") (auto simp: execute_query_def conn_execute_def split: sum.splits)

subsection \<open>File type validation\<close>

text \<open>
  C6. For every \<^verbatim>\<open>file_type\<close> other than \<^verbatim>\<open>"csv"\<close> and \<^verbatim>\<open>"parquet"\<close>, \<^verbatim>\<open>read_file\<close> raises
  \<^verbatim>\<open>ValueError\<close> whatever the other arguments and whatever the state of the connection, and
  the state, with its trace of engine calls, is as it was: the check comes before any
  engine interaction.
\<close>

theorem read_file_rejects_unknown_file_type:
  "file_type \<notin> {''csv'', ''parquet''} \<Longrightarrow>
     read_file eng w file_path file_type select_columns filter_conditions =
       (Inl (ValueError (''file_type must be either 'csv' or 'parquet'' @ sq)), w)"
  by (simp add: read_file_def)

theorem read_file_rejects_unknown_file_type_witness:
  "''xml'' \<notin> {''csv'', ''parquet''} \<and>
   read_file demo_engine closed_world ''data.xml'' ''xml'' (Some [''a'']) None =
     (Inl (ValueError (''file_type must be either 'csv' or 'parquet'' @ sq)), closed_world)"
  using read_file_rejects_unknown_file_type
          [of "''xml''" demo_engine closed_world "''data.xml''" "Some [''a'']" None]
  by simp

subsection \<open>The streaming query is lazy\<close>

text \<open>
  C10. Calling \<^verbatim>\<open>execute_query_fetch_one\<close> returns a generator, raises nothing and makes no
  engine call, on any state and for any statement. The statement is executed when the
  generator is first advanced: on a wrapper without a connection that first step raises
  and makes no engine call; on a connected wrapper it makes exactly the \<^verbatim>\<open>execute\<close> call,
  and an error the engine reports for the statement is raised by that first step.
\<close>

theorem execute_query_fetch_one_lazy:
  "execute_query_fetch_one eng w query ps = (Inr (Created query ps), w)
   \<and> (conn w = None \<longrightarrow>
        isl (fst (gen_next eng w (Created query ps)))
        \<and> snd (snd (gen_next eng w (Created query ps))) = w)
   \<and> (conn w \<noteq> None \<longrightarrow>
        snd (snd (gen_next eng w (Created query ps))) =
          w\<lparr>trace := trace w @ [Execute query ps None]\<rparr>
        \<and> (\<forall>e. execute_result eng (trace w) query ps None = Inl e \<longrightarrow>
               fst (gen_next eng w (Created query ps)) = Inl e))"
  by (auto simp: execute_query_fetch_one_def conn_execute_def
           split: option.splits sum.splits prod.splits)

theorem execute_query_fetch_one_lazy_witness:
  "execute_query_fetch_one rejecting_engine closed_world ''SELEC 1'' NoParams =
     (Inr (Created ''SELEC 1'' NoParams), closed_world)
   \<and> conn closed_world = None
   \<and> isl (fst (gen_next rejecting_engine closed_world (Created ''SELEC 1'' NoParams)))
   \<and> conn open_world \<noteq> None
   \<and> execute_result rejecting_engine (trace open_world) ''SELEC 1'' NoParams None =
       Inl (DuckDBError ''Parser Error'')
   \<and> gen_next rejecting_engine open_world (Created ''SELEC 1'' NoParams) =
       (Inl (DuckDBError ''Parser Error''), Finished,
        open_world\<lparr>trace := [Connect None, Execute ''SELEC 1'' NoParams None]\<rparr>)"
  using execute_query_fetch_one_lazy [of rejecting_engine closed_world "''SELEC 1''" NoParams]
    execute_query_fetch_one_lazy [of rejecting_engine open_world "''SELEC 1''" NoParams]
  by (simp add: open_world_eq closed_world_def init_def rejecting_engine_def demo_engine_def
        conn_execute_def)

subsection \<open>Column names of an eager result\<close>

text \<open>
  C2. When \<^verbatim>\<open>execute_query\<close> returns, every row dictionary of the result has the same keys:
  the column names read once from the \<^verbatim>\<open>description\<close> of the cursor that \<^verbatim>\<open>execute\<close>
  returned for the statement. The key set of every row is the set of those names, no key
  occurs twice in a row, and when the names are pairwise different the keys of every row
  are that list, in its order. The engine is taken to keep the cursor contract that every
  row has one value for each entry of \<^verbatim>\<open>description\<close>.
\<close>

theorem execute_query_columns:
  assumes ok: "execute_query eng w query ps = (Inr data, w')"
    and res: "execute_result eng (trace w) query ps None = Inr result"
    and desc: "description result = Some descs"
    and wf: "\<forall>r. Row r \<in> set (pending result) \<longrightarrow> length r = length descs"
  shows "\<forall>d \<in> set data.
           set (map fst d) = set (map fst descs) \<and> distinct (map fst d)
           \<and> (distinct (map fst descs) \<longrightarrow> map fst d = map fst descs)"
proof
  fix d assume d: "d \<in> set data"
  from execute_query_Inr [OF ok] res desc obtain rows where
    rows: "fetchall (pending result) = Inr rows"
    and data: "data = map (\<lambda>row. py_dict (zip (map fst descs) row)) rows"
    by (auto simp: columns_of_def)
  from d data obtain r where r: "r \<in> set rows" and dr: "d = py_dict (zip (map fst descs) r)"
    by auto
  from fetchall_rows [OF rows r] wf have len: "length r = length descs" by simp
  then have keys: "map fst (zip (map fst descs) r) = map fst descs"
    by simp
  show "set (map fst d) = set (map fst descs) \<and> distinct (map fst d)
          \<and> (distinct (map fst descs) \<longrightarrow> map fst d = map fst descs)"
    using py_dict_keys [of "zip (map fst descs) r"] py_dict_distinct [of "zip (map fst descs) r"]
      py_dict_order [of "zip (map fst descs) r"]
    by (simp add: dr keys)
qed

theorem execute_query_columns_witness:
  "execute_query demo_engine open_world ''SELECT a, b FROM t'' NoParams =
     (Inr [[(''a'', PInt 1), (''b'', PStr ''x'')], [(''a'', PInt 2), (''b'', PStr ''y'')]],
      open_world\<lparr>trace := [Connect None, Execute ''SELECT a, b FROM t'' NoParams None]\<rparr>)
   \<and> execute_result demo_engine (trace open_world) ''SELECT a, b FROM t'' NoParams None
       = Inr demo_cursor
   \<and> description demo_cursor = Some [(''a'', ''INTEGER''), (''b'', ''VARCHAR'')]
   \<and> map fst [(''a'', PInt 1), (''b'', PStr ''x'')] = [''a'', ''b'']
   \<and> map fst [(''a'', PInt 2), (''b'', PStr ''y'')] = [''a'', ''b'']"
proof -
  let ?descs = "[(''a'', ''INTEGER''), (''b'', ''VARCHAR'')]"
  have ok: "execute_query demo_engine open_world ''SELECT a, b FROM t'' NoParams =
     (Inr [[(''a'', PInt 1), (''b'', PStr ''x'')], [(''a'', PInt 2), (''b'', PStr ''y'')]],
      open_world\<lparr>trace := [Connect None, Execute ''SELECT a, b FROM t'' NoParams None]\<rparr>)"
    by (simp add: execute_query_def conn_execute_def open_world_eq demo_engine_def
          demo_cursor_def columns_of_def py_dict_def)
  have res: "execute_result demo_engine (trace open_world) ''SELECT a, b FROM t'' NoParams None
               = Inr demo_cursor"
    by (simp add: demo_engine_def)
  have desc: "description demo_cursor = Some ?descs"
    by (simp add: demo_cursor_def)
  have wf: "\<forall>r. Row r \<in> set (pending demo_cursor) \<longrightarrow> length r = length ?descs"
    by (auto simp: demo_cursor_def)
  from execute_query_columns [OF ok res desc wf] ok res desc show ?thesis
    by simp
qed

subsection \<open>Streaming and eager execution agree\<close>

lemma drain_suspended_ok:
  "fetchall (pending result) = Inr rows \<Longrightarrow>
     drain eng w (Suspended result columns n) =
       (map (\<lambda>row. py_dict (zip columns row)) rows, None, w)"
proof (induction "pending result" arbitrary: result n rows)
  case Nil
  then have "pending result = []" "rows = []" by auto
  then show ?case
    by (subst drain.simps) (simp add: fetch_loop_def)
next
  case (Cons x xs)
  from Cons.hyps(2) have p: "pending result = x # xs" by simp
  with Cons.prems obtain r rs where x: "x = Row r" and rs: "fetchall xs = Inr rs"
    and rows: "rows = r # rs"
    by (cases x) (auto split: sum.splits)
  have "xs = pending (result\<lparr>pending := xs\<rparr>)" by simp
  from Cons.hyps(1) [OF this, of rs "n + 1"] rs
  have "drain eng w (Suspended (result\<lparr>pending := xs\<rparr>) columns (n + 1)) =
          (map (\<lambda>row. py_dict (zip columns row)) rs, None, w)"
    by simp
  with p x rows show ?case
    by (subst drain.simps) (simp add: fetch_loop_def)
qed

lemma drain_suspended_error:
  "fetchall (pending result) = Inl e \<Longrightarrow>
     snd (drain eng w (Suspended result columns n)) = (Some e, w)"
proof (induction "pending result" arbitrary: result n)
  case Nil
  then have "pending result = []" by simp
  with Nil.prems show ?case by simp
next
  case (Cons x xs)
  from Cons.hyps(2) have p: "pending result = x # xs" by simp
  show ?case
  proof (cases x)
    case (Fail e')
    with p Cons.prems have "e' = e" by simp
    with p Fail show ?thesis
      by (subst drain.simps) (simp add: fetch_loop_def)
  next
    case (Row r)
    with p Cons.prems have rest: "fetchall xs = Inl e"
      by (auto split: sum.splits)
    have "xs = pending (result\<lparr>pending := xs\<rparr>)" by simp
    from Cons.hyps(1) [OF this, of "n + 1"] rest
    obtain ds where
      "drain eng w (Suspended (result\<lparr>pending := xs\<rparr>) columns (n + 1)) = (ds, Some e, w)"
      by (cases "drain eng w (Suspended (result\<lparr>pending := xs\<rparr>) columns (n + 1))") auto
    with p Row show ?thesis
      by (subst drain.simps) (simp add: fetch_loop_def)
  qed
qed

lemma drain_created:
  "drain eng w (Created query ps) =
     (case conn_execute eng w query ps None of
        (Inl e, w1) \<Rightarrow> ([], Some e, w1)
      | (Inr result, w1) \<Rightarrow>
          (case columns_of result of
             Inl e \<Rightarrow> ([], Some e, w1)
           | Inr columns \<Rightarrow> drain eng w1 (Suspended result columns 0)))"
  by (subst drain.simps, subst (2) drain.simps)
     (simp split: prod.splits sum.splits option.splits)

text \<open>
  C3. For every engine, state, statement and parameters, iterating over the whole sequence
  of \<^verbatim>\<open>execute_query_fetch_one\<close> yields the row dictionaries of the list that
  \<^verbatim>\<open>execute_query\<close> returns for the same statement and parameters from the same state, in
  the same order; the iteration ends with an exception exactly when \<^verbatim>\<open>execute_query\<close>
  raises, with the same exception, and both leave the same state.
\<close>

theorem streaming_matches_eager:
  "execute_query eng w query ps =
     (case consume_fetch_one eng w query ps of
        (rows, None, w') \<Rightarrow> (Inr rows, w')
      | (rows, Some e, w') \<Rightarrow> (Inl e, w'))"
proof -
  obtain r w1 where ce: "conn_execute eng w query ps None = (r, w1)"
    by (cases "conn_execute eng w query ps None")
  show ?thesis
  proof (cases r)
    case (Inl e)
    with ce show ?thesis
      by (simp add: execute_query_def consume_fetch_one_def execute_query_fetch_one_def
            drain_created)
  next
    case (Inr result)
    show ?thesis
    proof (cases "columns_of result")
      case (Inl e)
      with ce Inr show ?thesis
        by (simp add: execute_query_def consume_fetch_one_def execute_query_fetch_one_def
              drain_created)
    next
      case cols: (Inr columns)
      show ?thesis
      proof (cases "fetchall (pending result)")
        case (Inl e)
        from drain_suspended_error [OF this, of eng w1 columns 0]
        obtain ds where "drain eng w1 (Suspended result columns 0) = (ds, Some e, w1)"
          by (cases "drain eng w1 (Suspended result columns 0)") auto
        with ce Inr cols Inl show ?thesis
          by (simp add: execute_query_def consume_fetch_one_def execute_query_fetch_one_def
                drain_created)
      next
        case rows: (Inr rows)
        from drain_suspended_ok [OF this, of eng w1 columns 0] ce Inr cols rows show ?thesis
          by (simp add: execute_query_def consume_fetch_one_def execute_query_fetch_one_def
                drain_created)
      qed
    qed
  qed
qed

theorem streaming_matches_eager_witness:
  "consume_fetch_one demo_engine open_world ''SELECT a, b FROM t'' NoParams =
     ([[(''a'', PInt 1), (''b'', PStr ''x'')], [(''a'', PInt 2), (''b'', PStr ''y'')]], None,
      open_world\<lparr>trace := [Connect None, Execute ''SELECT a, b FROM t'' NoParams None]\<rparr>)"
proof -
  have "execute_query demo_engine open_world ''SELECT a, b FROM t'' NoParams =
     (Inr [[(''a'', PInt 1), (''b'', PStr ''x'')], [(''a'', PInt 2), (''b'', PStr ''y'')]],
      open_world\<lparr>trace := [Connect None, Execute ''SELECT a, b FROM t'' NoParams None]\<rparr>)"
    by (simp add: execute_query_def conn_execute_def open_world_eq demo_engine_def
          demo_cursor_def columns_of_def py_dict_def)
  with streaming_matches_eager [of demo_engine open_world "''SELECT a, b FROM t''" NoParams]
  show ?thesis
    by (auto split: prod.splits option.splits)
qed

subsection \<open>Operations on a wrapper without a connection\<close>

text \<open>
  The query operations do not test \<^verbatim>\<open>self._conn\<close>: on a wrapper without a connection
  \<^verbatim>\<open>execute_query\<close> raises the \<^verbatim>\<open>AttributeError\<close> of \<^verbatim>\<open>None.execute\<close>, which is not a
  \<^verbatim>\<open>ConnectionError\<close>, and the call of \<^verbatim>\<open>execute_query_fetch_one\<close> raises nothing at
  all. Only \<^verbatim>\<open>connect_to_s3\<close> tests the connection and raises \<^verbatim>\<open>ConnectionError\<close>.
\<close>

theorem closed_connection_error_counterexample:
  "execute_query demo_engine closed_world ''SELECT 1'' NoParams = (Inl AttributeError, closed_world)
   \<and> \<not> raises_connection_error (fst (execute_query demo_engine closed_world ''SELECT 1'' NoParams))
   \<and> execute_query_fetch_one demo_engine closed_world ''SELECT 1'' NoParams =
       (Inr (Created ''SELECT 1'' NoParams), closed_world)
   \<and> \<not> raises_connection_error
         (fst (execute_query_fetch_one demo_engine closed_world ''SELECT 1'' NoParams))
   \<and> raises_connection_error (fst (connect_to_s3 demo_engine demo_identity closed_world))"
  by (simp add: execute_query_def conn_execute_def closed_world_def init_def
        raises_connection_error_def execute_query_fetch_one_def connect_to_s3_def)

text \<open>
  C1, in the form that holds of the code. On a wrapper whose connection was never opened or
  has been closed, each of
  \<^verbatim>\<open>execute_query\<close>, \<^verbatim>\<open>read_file\<close>, \<^verbatim>\<open>create_table\<close>, \<^verbatim>\<open>save_parquet\<close> and
  \<^verbatim>\<open>save_table_as_parquet\<close> raises an exception and makes no engine call, whatever its
  arguments. The call of \<^verbatim>\<open>execute_query_fetch_one\<close> returns a generator and makes no
  engine call; advancing that generator for the first time raises an exception and makes
  no engine call.
\<close>

theorem closed_connection_fails_without_engine_call:
  assumes "conn w = None"
  shows "isl (fst (execute_query eng w query ps)) \<and> snd (execute_query eng w query ps) = w
    \<and> isl (fst (read_file eng w file_path file_type select_columns filter_conditions))
    \<and> snd (read_file eng w file_path file_type select_columns filter_conditions) = w
    \<and> isl (fst (create_table eng w table_name data)) \<and> snd (create_table eng w table_name data) = w
    \<and> isl (fst (save_parquet eng w data complete_file_name))
    \<and> snd (save_parquet eng w data complete_file_name) = w
    \<and> isl (fst (save_table_as_parquet eng w table_name dir file_name))
    \<and> snd (save_table_as_parquet eng w table_name dir file_name) = w
    \<and> execute_query_fetch_one eng w query ps = (Inr (Created query ps), w)
    \<and> isl (fst (gen_next eng w (Created query ps)))
    \<and> snd (snd (gen_next eng w (Created query ps))) = w"
  using assms
  by (simp add: execute_query_closed conn_execute_closed read_file_def create_table_def
        save_parquet_def save_table_as_parquet_def execute_query_fetch_one_def)

theorem closed_connection_fails_without_engine_call_witness:
  "conn closed_world = None
   \<and> isl (fst (execute_query demo_engine closed_world ''SELECT 1'' NoParams))
   \<and> snd (execute_query demo_engine closed_world ''SELECT 1'' NoParams) = closed_world
   \<and> isl (fst (save_parquet demo_engine closed_world [[(''a'', PInt 1)]] ''out.parquet''))
   \<and> trace (snd (save_parquet demo_engine closed_world [[(''a'', PInt 1)]] ''out.parquet'')) = []
   \<and> isl (fst (gen_next demo_engine closed_world (Created ''SELECT 1'' NoParams)))"
  using closed_connection_fails_without_engine_call
          [of closed_world demo_engine "''SELECT 1''" NoParams "''f.csv''" "''csv''" None None
              "''t''" "[[(''a'', PInt 1)]]" "''out.parquet''" "''dir''" "''out''"]
  by (simp add: closed_world_def init_def)

subsection \<open>Remote storage: failure of the identity service\<close>

text \<open>
  C4. When \<^verbatim>\<open>sts.get_caller_identity()\<close> raises, or the credentials cannot be fetched
  (\<^verbatim>\<open>session.get_credentials()\<close> raises, or returns \<^verbatim>\<open>None\<close> so that
  \<^verbatim>\<open>.get_frozen_credentials()\<close> raises), \<^verbatim>\<open>connect_to_s3\<close> leaves the state as it was: no
  \<^verbatim>\<open>SET\<close> statement is executed and no extension is installed or loaded. On a connected
  wrapper the exception of the identity service is the one \<^verbatim>\<open>connect_to_s3\<close> raises.
\<close>

theorem connect_to_s3_identity_failure:
  assumes "sts_client ids = None"
    and "get_caller_identity ids = Some e
         \<or> get_caller_identity ids = None
            \<and> (get_credentials ids = Inl e \<or> get_credentials ids = Inr None \<and> e = AttributeError)"
  shows "snd (connect_to_s3 eng ids w) = w
         \<and> (conn w \<noteq> None \<longrightarrow> fst (connect_to_s3 eng ids w) = Inl e)"
  using assms by (auto simp: connect_to_s3_def)

theorem connect_to_s3_identity_failure_witness:
  "sts_client no_identity = None
   \<and> get_caller_identity no_identity = Some (BotoError ''NoCredentialsError'')
   \<and> conn open_world \<noteq> None
   \<and> connect_to_s3 demo_engine no_identity open_world =
       (Inl (BotoError ''NoCredentialsError''), open_world)
   \<and> trace open_world = [Connect None]"
  using connect_to_s3_identity_failure
          [of no_identity "BotoError ''NoCredentialsError''" demo_engine open_world]
  by (simp add: no_identity_def open_world_eq prod_eq_iff)

text \<open>With credentials, the four options are set in the order of \<^verbatim>\<open>aws_config\<close> and the
  two extensions are installed and loaded.\<close>

lemma connect_to_s3_success_trace:
  "connect_to_s3 demo_engine demo_identity open_world =
     (Inr (),
      open_world\<lparr>trace :=
        [Connect None,
         Execute (''SET s3_access_key_id='AK'' @ sq) NoParams None,
         Execute (''SET s3_secret_access_key='SK'' @ sq) NoParams None,
         Execute (''SET s3_session_token='TK'' @ sq) NoParams None,
         Execute (''SET s3_region='eu-west-1'' @ sq) NoParams None,
         InstallExtension ''httpfs'', LoadExtension ''httpfs'',
         InstallExtension ''aws'', LoadExtension ''aws'']\<rparr>)"
  by (simp add: connect_to_s3_def demo_identity_def open_world_eq demo_engine_def
        conn_execute_def py_str_def sq_def)

subsection \<open>The statement built by \<^verbatim>\<open>read_file\<close>\<close>

text \<open>
  An empty list of columns or of conditions is given, yet \<^verbatim>\<open>if select_columns:\<close> and
  \<^verbatim>\<open>if filter_conditions:\<close> treat it as absent: the statement executed is \<^verbatim>\<open>SELECT *\<close>
  without \<^verbatim>\<open>WHERE\<close>, where the specification's wording gives an empty column list and an
  empty \<^verbatim>\<open>WHERE\<close> clause.
\<close>

theorem read_file_empty_list_counterexample:
  "trace (snd (read_file demo_engine open_world ''data.csv'' ''csv'' (Some []) (Some []))) =
     [Connect None, Execute (''SELECT * FROM read_csv('data.csv')'') NoParams None]
   \<and> spec_read_statement ''data.csv'' ''csv'' (Some []) (Some []) =
       ''SELECT  FROM read_csv('data.csv') WHERE ''
   \<and> read_file_query ''data.csv'' ''csv'' (Some []) (Some [])
       \<noteq> spec_read_statement ''data.csv'' ''csv'' (Some []) (Some [])"
  by (simp add: read_file_def read_file_query_def spec_read_statement_def execute_query_def
        conn_execute_def open_world_eq sq_def demo_engine_def demo_cursor_def columns_of_def)

lemma read_file_executes:
  "file_type \<in> {''csv'', ''parquet''} \<Longrightarrow> conn w \<noteq> None \<Longrightarrow>
     snd (read_file eng w file_path file_type select_columns filter_conditions) =
       w\<lparr>trace := trace w @
          [Execute (read_file_query file_path file_type select_columns filter_conditions)
             NoParams None]\<rparr>"
  by (auto simp: read_file_def execute_query_def conn_execute_def split: sum.splits)

lemma read_file_query_empty_lists:
  "read_file_query file_path file_type (Some []) filter_conditions =
     read_file_query file_path file_type None filter_conditions"
  "read_file_query file_path file_type select_columns (Some []) =
     read_file_query file_path file_type select_columns None"
  by (simp_all add: read_file_query_def)

text \<open>
  C5, in the form that holds of the code. For every path, file type, \<^verbatim>\<open>select_columns\<close> and
  \<^verbatim>\<open>filter_conditions\<close>, the statement built by \<^verbatim>\<open>read_file\<close> is the one the
  specification words, with "given" read as "given and non-empty": the comma-joined
  columns when \<^verbatim>\<open>select_columns\<close> is a non-empty list and \<^verbatim>\<open>*\<close> when it is absent or
  empty, then \<^verbatim>\<open>FROM read_<file_type>('<path>')\<close>, then, when \<^verbatim>\<open>filter_conditions\<close> is a
  non-empty list, \<^verbatim>\<open>WHERE\<close> with each condition in parentheses and \<^verbatim>\<open>AND\<close> between
  them, and no \<^verbatim>\<open>WHERE\<close> clause when it is absent or empty. On a connected wrapper and
  for a recognised file type, that statement is the one engine call \<^verbatim>\<open>read_file\<close> makes.
\<close>

theorem read_file_statement:
  "read_file_query file_path file_type select_columns filter_conditions =
     spec_read_statement file_path file_type
       (given_nonempty select_columns) (given_nonempty filter_conditions)
   \<and> (file_type \<in> {''csv'', ''parquet''} \<longrightarrow> conn w \<noteq> None \<longrightarrow>
        snd (read_file eng w file_path file_type select_columns filter_conditions) =
          w\<lparr>trace := trace w @
             [Execute (spec_read_statement file_path file_type
                         (given_nonempty select_columns) (given_nonempty filter_conditions))
                NoParams None]\<rparr>)"
proof -
  have eq: "read_file_query file_path file_type select_columns filter_conditions =
              spec_read_statement file_path file_type
                (given_nonempty select_columns) (given_nonempty filter_conditions)"
    by (cases select_columns; cases filter_conditions)
       (auto simp: read_file_query_def spec_read_statement_def given_nonempty_def Let_def
             split: list.splits)
  with read_file_executes [of file_type w eng file_path select_columns filter_conditions]
  show ?thesis by simp
qed

theorem read_file_statement_witness:
  "''csv'' \<in> {''csv'', ''parquet''} \<and> conn open_world \<noteq> None
   \<and> snd (read_file demo_engine open_world ''path'' ''csv'' (Some [''a'', ''b''])
            (Some [''a > 1''])) =
       open_world\<lparr>trace :=
         [Connect None,
          Execute ''SELECT a, b FROM read_csv('path') WHERE (a > 1)'' NoParams None]\<rparr>
   \<and> snd (read_file demo_engine open_world ''path'' ''csv'' (Some []) (Some [])) =
       open_world\<lparr>trace :=
         [Connect None, Execute ''SELECT * FROM read_csv('path')'' NoParams None]\<rparr>
   \<and> snd (read_file demo_engine open_world ''path'' ''csv'' None
            (Some [''a > 1'', ''b < 2''])) =
       open_world\<lparr>trace :=
         [Connect None,
          Execute ''SELECT * FROM read_csv('path') WHERE (a > 1) AND (b < 2)'' NoParams None]\<rparr>"
  using read_file_statement
          [of "''path''" "''csv''" "Some [''a'', ''b'']" "Some [''a > 1'']" open_world demo_engine]
    read_file_statement
          [of "''path''" "''csv''" "Some []" "Some []" open_world demo_engine]
    read_file_statement
          [of "''path''" "''csv''" None "Some [''a > 1'', ''b < 2'']" open_world demo_engine]
  by (simp add: spec_read_statement_def given_nonempty_def open_world_eq sq_def)

subsection \<open>Creating a table\<close>

text \<open>
  C7. \<^verbatim>\<open>create_table\<close> with an empty dataset raises \<^verbatim>\<open>ValueError\<close> and makes no engine
  call, for every table name and every state. With a non-empty dataset, on a connected
  wrapper, it makes exactly one engine call: \<^verbatim>\<open>CREATE TABLE <table_name> AS SELECT * FROM
  df\<close>, with the table name as given and \<^verbatim>\<open>df\<close> the data frame of the dataset; it raises
  what the engine raises for it.
\<close>

theorem create_table_contract:
  "create_table eng w table_name [] =
     (Inl (ValueError ''No data provided to create the table''), w)
   \<and> (data \<noteq> [] \<longrightarrow> conn w \<noteq> None \<longrightarrow>
        create_table eng w table_name data =
          ((case execute_result eng (trace w)
                   (''CREATE TABLE '' @ table_name @ '' AS SELECT * FROM df'') NoParams
                   (Some (DataFrame data)) of
              Inl e \<Rightarrow> Inl e | Inr c \<Rightarrow> Inr ()),
           w\<lparr>trace := trace w @
              [Execute (''CREATE TABLE '' @ table_name @ '' AS SELECT * FROM df'') NoParams
                 (Some (DataFrame data))]\<rparr>))"
  by (auto simp: create_table_def conn_execute_def split: sum.splits)

theorem create_table_contract_witness:
  "create_table demo_engine open_world ''t'' [] =
     (Inl (ValueError ''No data provided to create the table''), open_world)
   \<and> [[(''a'', PInt 1)]] \<noteq> [] \<and> conn open_world \<noteq> None
   \<and> create_table demo_engine open_world ''t'' [[(''a'', PInt 1)]] =
       (Inr (),
        open_world\<lparr>trace :=
          [Connect None,
           Execute ''CREATE TABLE t AS SELECT * FROM df'' NoParams
             (Some (DataFrame [[(''a'', PInt 1)]]))]\<rparr>)"
  using create_table_contract [of demo_engine open_world "''t''" "[[(''a'', PInt 1)]]"]
  by (simp add: open_world_eq demo_engine_def)

subsection \<open>Closing, and leaving a scope\<close>

text \<open>
  C8. \<^verbatim>\<open>close\<close> is idempotent, and on a wrapper without a connection it changes nothing.
  Once a \<^verbatim>\<open>with\<close> scope has been entered, leaving it, whether its body returned or raised,
  leaves the wrapper without a connection, so that a further \<^verbatim>\<open>close\<close> changes nothing; the
  outcome of the body, an exception included, is the outcome of the \<^verbatim>\<open>with\<close> statement;
  and the handle the wrapper holds at the end of the body is closed as the last engine call.
\<close>

theorem close_idempotent_and_scope_closes:
  "close (close w) = close w
   \<and> conn (close w) = None
   \<and> (conn w = None \<longrightarrow> close w = w)
   \<and> (fst (dunder_enter eng w) = Inr () \<longrightarrow>
        conn (snd (with_scope eng w body)) = None
        \<and> close (snd (with_scope eng w body)) = snd (with_scope eng w body)
        \<and> fst (with_scope eng w body) = fst (body (snd (dunder_enter eng w)))
        \<and> (\<forall>h. conn (snd (body (snd (dunder_enter eng w)))) = Some h \<longrightarrow>
               trace (snd (with_scope eng w body)) =
                 trace (snd (body (snd (dunder_enter eng w)))) @ [Close h]))"
  by (auto simp: close_def with_scope_def dunder_exit_def split: option.splits prod.splits sum.splits)

theorem close_idempotent_and_scope_closes_witness:
  "conn closed_world = None \<and> close closed_world = closed_world
   \<and> fst (dunder_enter demo_engine closed_world) = Inr ()
   \<and> conn (snd (failing_body (snd (dunder_enter demo_engine closed_world)))) = Some 0
   \<and> with_scope demo_engine closed_world failing_body =
       (Inl (DuckDBError ''Parser Error''),
        \<lparr>db_file = None, conn = None,
         trace = [Connect None, Execute ''SELEC 1'' NoParams None, Close 0]\<rparr>)
   \<and> close (snd (with_scope demo_engine closed_world failing_body)) =
       snd (with_scope demo_engine closed_world failing_body)"
  using close_idempotent_and_scope_closes [of closed_world demo_engine failing_body]
  by (simp add: closed_world_def init_def dunder_enter_def create_duckdb_connection_def
        demo_engine_def failing_body_def execute_query_def conn_execute_def rejecting_engine_def
        with_scope_def dunder_exit_def close_def)

subsection \<open>Saving a dataset to a file\<close>

text \<open>On a connected wrapper \<^verbatim>\<open>save_parquet\<close> executes \<^verbatim>\<open>CREATE TEMPORARY TABLE\<close>, then
  \<^verbatim>\<open>COPY\<close>, then \<^verbatim>\<open>DROP TABLE\<close>, and stops at the first statement the engine rejects.\<close>

lemma save_parquet_sequence:
  assumes "conn w = Some h"
  shows "trace (snd (save_parquet eng w data complete_file_name)) =
           trace w @
           (let df = Some (DataFrame data);
                create = Execute ''CREATE TEMPORARY TABLE temp_table AS SELECT * FROM df'' NoParams df;
                copy = Execute (''COPY temp_table TO '' @ sq @ complete_file_name @ sq) NoParams df;
                drop = Execute ''DROP TABLE temp_table'' NoParams df
            in if isl (execute_result eng (trace w)
                        ''CREATE TEMPORARY TABLE temp_table AS SELECT * FROM df'' NoParams df)
               then [create]
               else if isl (execute_result eng (trace w @ [create])
                        (''COPY temp_table TO '' @ sq @ complete_file_name @ sq) NoParams df)
               then [create, copy]
               else [create, copy, drop])"
  using assms
  by (auto simp: save_parquet_def conn_execute_def Let_def split: sum.splits)

text \<open>When \<^verbatim>\<open>COPY\<close> fails, its exception is raised and \<^verbatim>\<open>DROP TABLE\<close> is not executed.\<close>

lemma save_parquet_copy_failure:
  assumes "conn w = Some h"
    and "execute_result eng (trace w)
           ''CREATE TEMPORARY TABLE temp_table AS SELECT * FROM df'' NoParams
           (Some (DataFrame data)) = Inr c"
    and "execute_result eng
           (trace w @ [Execute ''CREATE TEMPORARY TABLE temp_table AS SELECT * FROM df'' NoParams
                         (Some (DataFrame data))])
           (''COPY temp_table TO '' @ sq @ complete_file_name @ sq) NoParams
           (Some (DataFrame data)) = Inl e"
  shows "save_parquet eng w data complete_file_name =
           (Inl e,
            w\<lparr>trace := trace w @
               [Execute ''CREATE TEMPORARY TABLE temp_table AS SELECT * FROM df'' NoParams
                  (Some (DataFrame data)),
                Execute (''COPY temp_table TO '' @ sq @ complete_file_name @ sq) NoParams
                  (Some (DataFrame data))]\<rparr>)"
  using assms by (simp add: save_parquet_def conn_execute_def Let_def)

lemma save_parquet_copy_failure_example:
  "save_parquet copy_failing_engine open_world [[(''a'', PInt 1)]] ''out.parquet'' =
     (Inl (DuckDBError ''IO Error''),
      open_world\<lparr>trace :=
        [Connect None,
         Execute ''CREATE TEMPORARY TABLE temp_table AS SELECT * FROM df'' NoParams
           (Some (DataFrame [[(''a'', PInt 1)]])),
         Execute (''COPY temp_table TO 'out.parquet'' @ sq) NoParams
           (Some (DataFrame [[(''a'', PInt 1)]]))]\<rparr>)"
  by (simp add: save_parquet_def conn_execute_def open_world_eq copy_failing_engine_def
        demo_engine_def sq_def Let_def)

text \<open>
  C9. \<^verbatim>\<open>save_parquet\<close> creates the temporary relation, copies it to the destination and
  drops it, in this order. The \<^verbatim>\<open>COPY\<close> statement it executes names no format: for the
  destination \<^verbatim>\<open>out.dat\<close> it is \<^verbatim>\<open>COPY temp_table TO 'out.dat'\<close>, whereas
  \<^verbatim>\<open>save_table_as_parquet\<close> executes its \<^verbatim>\<open>COPY\<close> with \<^verbatim>\<open>(FORMAT PARQUET)\<close>.
\<close>

theorem save_parquet_copy_names_no_format:
  "save_parquet demo_engine open_world [[(''a'', PInt 1)]] ''out.dat'' =
     (Inr (),
      open_world\<lparr>trace :=
        [Connect None,
         Execute ''CREATE TEMPORARY TABLE temp_table AS SELECT * FROM df'' NoParams
           (Some (DataFrame [[(''a'', PInt 1)]])),
         Execute (''COPY temp_table TO 'out.dat'' @ sq) NoParams
           (Some (DataFrame [[(''a'', PInt 1)]])),
         Execute ''DROP TABLE temp_table'' NoParams (Some (DataFrame [[(''a'', PInt 1)]]))]\<rparr>)
   \<and> save_table_as_parquet demo_engine open_world ''t'' ''dir'' ''out'' =
       (Inr (),
        open_world\<lparr>trace :=
          [Connect None,
           Execute ''COPY (SELECT * FROM t) TO 'dir/out.parquet' (FORMAT PARQUET)''
             NoParams None]\<rparr>)"
  by (simp add: save_parquet_def save_table_as_parquet_def conn_execute_def open_world_eq
        demo_engine_def sq_def os_path_join_def Let_def)

end
